theory Spec2Isabelle
  imports Complex_Main "HOL-Library.Sublist" "HOL-Library.Product_Lexorder"
begin

section \<open>The bike rentals dashboard (app.py)\<close>

text \<open>
  The dashboard is one linear script: it loads \<^verbatim>\<open>train.csv\<close>, derives calendar columns,
  filters the table by the sidebar selections and hands group-by aggregates to the
  plotting calls. The theory follows the script from top to bottom. A data frame is the
  list of its rows, in index order; a column access is a record field.
\<close>

subsection \<open>Data model\<close>

text \<open>
  A parsed timestamp, seen through the \<^verbatim>\<open>.dt\<close> accessors the loader reads
  (\<^verbatim>\<open>.dt.year\<close>, \<^verbatim>\<open>.dt.month\<close>, \<^verbatim>\<open>.dt.dayofweek\<close>, \<^verbatim>\<open>.dt.hour\<close>).
\<close>

record timestamp =
  dt_year :: int
  dt_month :: int
  dt_dayofweek :: int
  dt_hour :: int

text \<open>
  One row of the table after \<^verbatim>\<open>pd.read_csv\<close> and \<^verbatim>\<open>pd.to_datetime\<close>, with the columns
  the script names. The integer columns are Python/pandas integers, taken unbounded.
  The float columns are taken as reals: rounding is not modelled.
\<close>

record csv_row =
  datetime :: timestamp
  season :: int
  workingday :: int
  temp :: real
  atemp :: real
  humidity :: int
  windspeed :: real
  casual :: int
  registered :: int
  count :: int

text \<open>
  A row of the annotated table returned by \<^verbatim>\<open>load_data\<close>. A value that
  \<^verbatim>\<open>Series.map\<close> does not find in its dictionary is NaN: \<open>None\<close> here.
\<close>

record row = csv_row +
  year :: int
  month :: int
  dayofweek :: int
  hour :: int
  season_name :: "string option"
  day_name :: "string option"
  day_period :: string

text \<open>The table after line 57, \<^verbatim>\<open>df["total"] = df["count"]\<close>.\<close>

record trow = row +
  total :: int

text \<open>A pandas float result: NaN or a finite value.\<close>

datatype pyfloat = NaN | Finite real

subsection \<open>Data loading and preprocessing (lines 28-58)\<close>

definition season_map :: "int \<Rightarrow> string option" where
  "season_map c =
     (if c = 1 then Some ''spring'' else if c = 2 then Some ''summer''
      else if c = 3 then Some ''fall'' else if c = 4 then Some ''winter'' else None)"

definition dow_map :: "int \<Rightarrow> string option" where
  "dow_map d =
     (if d = 0 then Some ''Mon'' else if d = 1 then Some ''Tue''
      else if d = 2 then Some ''Wed'' else if d = 3 then Some ''Thu''
      else if d = 4 then Some ''Fri'' else if d = 5 then Some ''Sat''
      else if d = 6 then Some ''Sun'' else None)"

definition get_day_period :: "int \<Rightarrow> string" where
  "get_day_period h =
     (if 0 \<le> h \<and> h < 6 then ''night''
      else if 6 \<le> h \<and> h < 12 then ''morning''
      else if 12 \<le> h \<and> h < 18 then ''afternoon''
      else ''evening'')"

text \<open>The column assignments of \<^verbatim>\<open>load_data\<close>, row by row.\<close>

definition annotate :: "csv_row \<Rightarrow> row" where
  "annotate r =
     csv_row.extend r
       (row.fields
          (dt_year (datetime r))
          (dt_month (datetime r))
          (dt_dayofweek (datetime r))
          (dt_hour (datetime r))
          (season_map (season r))
          (dow_map (dt_dayofweek (datetime r)))
          (get_day_period (dt_hour (datetime r))))"

definition load_data :: "csv_row list \<Rightarrow> row list" where
  "load_data csv = map annotate csv"

definition add_total :: "row \<Rightarrow> trow" where
  "add_total r = row.extend r (trow.fields (count r))"

text \<open>Lines 56-57: the table every later operation of the script reads.\<close>

definition df :: "csv_row list \<Rightarrow> trow list" where
  "df csv = map add_total (load_data csv)"

definition numeric_cols :: "string list" where
  "numeric_cols =
     [''temp'', ''atemp'', ''humidity'', ''windspeed'', ''casual'', ''registered'', ''count'']"

subsection \<open>Sidebar filters (lines 65-87)\<close>

text \<open>\<^verbatim>\<open>Series.unique()\<close>: the distinct values in order of first appearance.\<close>

definition unique :: "'a list \<Rightarrow> 'a list" where
  "unique xs = rev (remdups (rev xs))"

definition year_options :: "('a row_scheme) list \<Rightarrow> int list" where
  "year_options t = sort (unique (map year t))"

definition season_options :: "('a row_scheme) list \<Rightarrow> string option list" where
  "season_options t = unique (map season_name t)"

text \<open>
  Lines 81-87. \<^verbatim>\<open>isin\<close> keeps the rows whose value is one of the selected ones; a
  boolean mask keeps the rows in index order. The working-day selection is the radio
  button's label, compared as the script compares it.
\<close>

definition filtered ::
    "('a row_scheme) list \<Rightarrow> int list \<Rightarrow> string option list \<Rightarrow> string \<Rightarrow> ('a row_scheme) list" where
  "filtered t selected_years selected_seasons workingday_filter =
     (let f1 = filter (\<lambda>r. year r \<in> set selected_years) t;
          f2 = filter (\<lambda>r. season_name r \<in> set selected_seasons) f1
      in if workingday_filter = ''Working days'' then filter (\<lambda>r. workingday r = 1) f2
         else if workingday_filter = ''Non-working days'' then filter (\<lambda>r. workingday r = 0) f2
         else f2)"

subsection \<open>Key figures (lines 97-105)\<close>

text \<open>
  \<^verbatim>\<open>Series.sum()\<close> of an integer column is an integer, 0 for the empty column.
  \<^verbatim>\<open>Series.mean()\<close> is a float, NaN for the empty column.
\<close>

definition series_sum :: "int list \<Rightarrow> int" where
  "series_sum xs = sum_list xs"

definition series_mean :: "int list \<Rightarrow> pyfloat" where
  "series_mean xs =
     (if xs = [] then NaN else Finite (real_of_int (sum_list xs) / real (length xs)))"

text \<open>The four values handed to \<^verbatim>\<open>st.metric\<close>, before they are formatted.\<close>

record key_figures =
  total_rentals :: int
  mean_hourly_rentals :: pyfloat
  registered_rentals :: int
  casual_rentals :: int

definition kpis :: "('a row_scheme) list \<Rightarrow> key_figures" where
  "kpis view =
     \<lparr>total_rentals = series_sum (map count view),
      mean_hourly_rentals = series_mean (map count view),
      registered_rentals = series_sum (map registered view),
      casual_rentals = series_sum (map casual view)\<rparr>"

subsection \<open>Rentals by month (lines 112-120)\<close>

datatype py_error = FileNotFoundError | ParserError | KeyError string | ValueError

text \<open>The integer columns the metric select box offers.\<close>

definition metric_column :: "string \<Rightarrow> (('a row_scheme) \<Rightarrow> int) option" where
  "metric_column c =
     (if c = ''count'' then Some count
      else if c = ''casual'' then Some casual
      else if c = ''registered'' then Some registered
      else None)"

text \<open>
  \<^verbatim>\<open>groupby(keys, as_index=False)[col].mean()\<close>: one row per distinct key, the keys in
  ascending order (\<^verbatim>\<open>sort=True\<close> is the default; a pair of keys is compared by its
  first component, then by its second), with the mean of the column over the rows of
  that key.
\<close>

definition groupby_mean ::
    "('r \<Rightarrow> 'k::linorder) \<Rightarrow> ('r \<Rightarrow> int) \<Rightarrow> 'r list \<Rightarrow> ('k \<times> pyfloat) list" where
  "groupby_mean key col view =
     map (\<lambda>k. (k, series_mean (map col (filter (\<lambda>r. key r = k) view))))
         (sort (unique (map key view)))"

definition monthly ::
    "('a row_scheme) list \<Rightarrow> string \<Rightarrow> py_error + ((int \<times> int) \<times> pyfloat) list" where
  "monthly view metric_choice =
     (case metric_column metric_choice of
        None \<Rightarrow> Inl (KeyError metric_choice)
      | Some col \<Rightarrow> Inr (groupby_mean (\<lambda>r. (year r, month r)) col view))"

text \<open>
  The order the specification gives for the monthly rows: by month, then by year. The
  keys of a row are (year, month).
\<close>

definition month_year_ordered :: "((int \<times> int) \<times> pyfloat) list \<Rightarrow> bool" where
  "month_year_ordered rows = sorted (map (\<lambda>((y, m), v). (m, y)) rows)"

subsection \<open>Scatter sample (line 166)\<close>

text \<open>
  \<^verbatim>\<open>DataFrame.sample(n, random_state=s)\<close> draws without replacement: it raises ValueError
  when \<open>n\<close> exceeds the number of rows, and otherwise takes the rows at the first \<open>n\<close>
  positions of a permutation of the row positions drawn from a generator. An integer
  \<^verbatim>\<open>random_state\<close> makes a fresh generator seeded with it; \<^verbatim>\<open>None\<close> uses the process-wide
  generator, whose state is whatever earlier draws left. The generator belongs to numpy:
  \<open>seeded\<close> (the state of a generator made from a seed) and \<open>permutation\<close> (the
  permutation a generator state yields for a length) are parameters. The positions of a
  permutation of the row positions are all in range, so every \<open>frame ! i\<close> below is a row.
\<close>

definition sample ::
    "(nat \<Rightarrow> 'g) \<Rightarrow> ('g \<Rightarrow> nat \<Rightarrow> nat list) \<Rightarrow> 'g \<Rightarrow> 'r list \<Rightarrow> nat \<Rightarrow> nat option
       \<Rightarrow> py_error + 'r list" where
  "sample seeded permutation global frame n random_state =
     (if length frame < n then Inl ValueError
      else let g = (case random_state of None \<Rightarrow> global | Some s \<Rightarrow> seeded s)
           in Inr (map (\<lambda>i. frame ! i) (take n (permutation g (length frame)))))"

definition scatter_sample ::
    "(nat \<Rightarrow> 'g) \<Rightarrow> ('g \<Rightarrow> nat \<Rightarrow> nat list) \<Rightarrow> 'g \<Rightarrow> 'r list \<Rightarrow> py_error + 'r list" where
  "scatter_sample seeded permutation global view =
     sample seeded permutation global view (min (length view) 5000) (Some 0)"

subsection \<open>Correlation matrix (line 205)\<close>









subsection \<open>The script as a sequence of renderings\<close>

text \<open>
  What the failure paths of the script depend on: whether \<^verbatim>\<open>train.csv\<close> exists, whether
  \<^verbatim>\<open>pd.read_csv\<close> can parse it, which columns its header has, and whether
  \<^verbatim>\<open>pd.to_datetime\<close> can parse every cell of the datetime column.
\<close>

datatype csv_file = Missing | Malformed | Table "string list" bool

datatype element =
    Title | Intro | SidebarHeader | YearSelect | SeasonSelect | WorkingdayRadio
  | SidebarRule | SidebarHint | Subheader | Metric string | Heading string
  | MetricSelect | XAxisRadio | Chart nat | Heatmap | RawData

text \<open>
  \<^verbatim>\<open>load_data\<close> (lines 29-54) on a file: the exception it raises, or the columns of the
  table it returns. It reads the columns datetime and season and no other.
\<close>

definition load_data_file :: "csv_file \<Rightarrow> py_error + string list" where
  "load_data_file f =
     (case f of
        Missing \<Rightarrow> Inl FileNotFoundError
      | Malformed \<Rightarrow> Inl ParserError
      | Table cols datetime_ok \<Rightarrow>
          if ''datetime'' \<notin> set cols then Inl (KeyError ''datetime'')
          else if \<not> datetime_ok then Inl ValueError
          else if ''season'' \<notin> set cols then Inl (KeyError ''season'')
          else Inr (cols @ [''year'', ''month'', ''dayofweek'', ''hour'', ''season_name'',
                            ''day_name'', ''day_period'']))"

text \<open>
  A step of the script after the load either renders an element, or reads a column of
  the table, which raises KeyError when the column is absent, or names a column to a
  plotting call, which raises ValueError when the column is absent. No exception is
  caught anywhere in the script, so the first one ends the run.
\<close>

datatype action = Render element | Column string | PlotColumn string

fun exec :: "string list \<Rightarrow> action list \<Rightarrow> element list \<Rightarrow> element list \<times> py_error option" where
  "exec cols [] out = (out, None)"
| "exec cols (Render e # rest) out = exec cols rest (out @ [e])"
| "exec cols (Column c # rest) out =
     (if c \<in> set cols then exec cols rest out else (out, Some (KeyError c)))"
| "exec cols (PlotColumn c # rest) out =
     (if c \<in> set cols then exec cols rest out else (out, Some ValueError))"

text \<open>Lines 57-216, for the three selections that decide which columns are read.\<close>

definition body :: "string \<Rightarrow> string \<Rightarrow> string \<Rightarrow> action list" where
  "body workingday_filter metric_choice x_axis_choice =
     [Column ''count'',
      Render SidebarHeader, Column ''year'', Render YearSelect,
      Column ''season_name'', Render SeasonSelect, Render WorkingdayRadio,
      Column ''year'', Column ''season_name'']
     @ (if workingday_filter = ''Working days'' \<or> workingday_filter = ''Non-working days''
        then [Column ''workingday''] else [])
     @ [Render SidebarRule, Render SidebarHint, Render Subheader,
        Column ''count'', Render (Metric ''Total rentals''),
        Column ''count'', Render (Metric ''Mean hourly rentals''),
        Column ''registered'', Render (Metric ''Registered rentals''),
        Column ''casual'', Render (Metric ''Casual rentals''),
        Render (Heading ''Rentals by month''), Render MetricSelect,
        Column ''year'', Column ''month'', Column metric_choice, Render (Chart 1),
        Render (Heading ''Hourly pattern by working day''),
        Column ''hour'', Column ''workingday'', Column ''count'', Render (Chart 2),
        Render (Heading ''Effect of weather and time-related factors''), Render XAxisRadio,
        PlotColumn x_axis_choice, PlotColumn ''count'', PlotColumn ''season_name'',
        Render (Chart 3),
        Render (Heading ''Rentals by period of day''),
        Column ''day_period'', Column ''workingday'', Column ''count'', Render (Chart 4),
        Render (Heading ''Correlation between numeric variables'')]
     @ map Column numeric_cols
     @ [Render Heatmap, Render RawData]"

text \<open>
  One run of the script: the elements rendered, in order, and the exception that ended
  the run, if any. The title and the introduction (lines 17-23) come before the load
  (line 56).
\<close>

definition run :: "csv_file \<Rightarrow> string \<Rightarrow> string \<Rightarrow> string \<Rightarrow> element list \<times> py_error option" where
  "run f workingday_filter metric_choice x_axis_choice =
     (case load_data_file f of
        Inl e \<Rightarrow> ([Title, Intro], Some e)
      | Inr cols \<Rightarrow> exec cols (body workingday_filter metric_choice x_axis_choice) [Title, Intro])"


subsection \<open>Sample data\<close>

definition ts1 :: timestamp where
  "ts1 = \<lparr>dt_year = 2011, dt_month = 2, dt_dayofweek = 5, dt_hour = 3\<rparr>"

definition ts2 :: timestamp where
  "ts2 = \<lparr>dt_year = 2012, dt_month = 1, dt_dayofweek = 0, dt_hour = 14\<rparr>"

definition csv1 :: csv_row where
  "csv1 = \<lparr>datetime = ts1, season = 1, workingday = 0, temp = 10, atemp = 14,
            humidity = 80, windspeed = 0, casual = 3, registered = 13, count = 16\<rparr>"

definition csv2 :: csv_row where
  "csv2 = \<lparr>datetime = ts2, season = 1, workingday = 1, temp = 12, atemp = 15,
            humidity = 75, windspeed = 6, casual = 8, registered = 32, count = 40\<rparr>"

definition sample_csv :: "csv_row list" where
  "sample_csv = [csv1, csv2]"

section \<open>Properties\<close>

subsection \<open>Helper facts\<close>

lemma annotate_sel:
  "year (annotate r) = dt_year (datetime r)"
  "month (annotate r) = dt_month (datetime r)"
  "hour (annotate r) = dt_hour (datetime r)"
  "season_name (annotate r) = season_map (season r)"
  "day_period (annotate r) = get_day_period (dt_hour (datetime r))"
  "workingday (annotate r) = workingday r"
  "count (annotate r) = count r"
  "casual (annotate r) = casual r"
  "registered (annotate r) = registered r"
  by (simp_all add: annotate_def csv_row.defs row.defs)

lemma add_total_sel:
  "total (add_total r) = count r"
  "count (add_total r) = count r"
  "year (add_total r) = year r"
  "month (add_total r) = month r"
  "hour (add_total r) = hour r"
  "season_name (add_total r) = season_name r"
  "day_period (add_total r) = day_period r"
  "workingday (add_total r) = workingday r"
  "casual (add_total r) = casual r"
  "registered (add_total r) = registered r"
  by (simp_all add: add_total_def row.defs trow.defs)

lemma filtered_conj:
  "filtered t ys ss m =
     filter (\<lambda>r. year r \<in> set ys \<and> season_name r \<in> set ss \<and>
                 (m = ''Working days'' \<longrightarrow> workingday r = 1) \<and>
                 (m = ''Non-working days'' \<longrightarrow> workingday r = 0)) t"
  by (auto simp: filtered_def Let_def intro: filter_cong)

lemma set_unique: "set (unique xs) = set xs"
  by (simp add: unique_def)

lemma sample_df:
  "df sample_csv = [add_total (annotate csv1), add_total (annotate csv2)]"
  by (simp add: df_def load_data_def sample_csv_def)

lemma sample_sel:
  "year (add_total (annotate csv1)) = 2011"
  "year (add_total (annotate csv2)) = 2012"
  "month (add_total (annotate csv1)) = 2"
  "month (add_total (annotate csv2)) = 1"
  "hour (add_total (annotate csv1)) = 3"
  "hour (add_total (annotate csv2)) = 14"
  "season_name (add_total (annotate csv1)) = Some ''spring''"
  "season_name (add_total (annotate csv2)) = Some ''spring''"
  "workingday (add_total (annotate csv1)) = 0"
  "workingday (add_total (annotate csv2)) = 1"
  "count (add_total (annotate csv1)) = 16"
  "count (add_total (annotate csv2)) = 40"
  by (simp_all add: add_total_sel annotate_sel csv1_def csv2_def ts1_def ts2_def season_map_def)

subsection \<open>The Filter Engine\<close>

text \<open>
  Claim C1. For every table, every selection of years and of season names and every
  working-day mode among All, Working days and Non-working days, the filtered view is
  exactly the rows of the table whose year is selected, whose season name is selected and
  (unless the mode is All) whose working-day flag matches the mode, in the order of the
  table: a subsequence of it, so no row is duplicated or moved.
\<close>

theorem filtered_subsequence:
  assumes "m \<in> {''All'', ''Working days'', ''Non-working days''}"
  shows "filtered t ys ss m =
           filter (\<lambda>r. year r \<in> set ys \<and> season_name r \<in> set ss \<and>
                       (m = ''All'' \<or> (m = ''Working days'' \<and> workingday r = 1)
                          \<or> (m = ''Non-working days'' \<and> workingday r = 0))) t
         \<and> subseq (filtered t ys ss m) t"
proof -
  have "filtered t ys ss m =
           filter (\<lambda>r. year r \<in> set ys \<and> season_name r \<in> set ss \<and>
                       (m = ''All'' \<or> (m = ''Working days'' \<and> workingday r = 1)
                          \<or> (m = ''Non-working days'' \<and> workingday r = 0))) t"
    unfolding filtered_conj using assms by (intro filter_cong) auto
  moreover have "subseq (filtered t ys ss m) t"
    unfolding filtered_conj by simp
  ultimately show ?thesis by simp
qed

theorem filtered_subsequence_witness:
  "filtered (df sample_csv) [2011, 2012] [Some ''spring''] ''Non-working days''
     = [add_total (annotate csv1)]
   \<and> subseq [add_total (annotate csv1)] (df sample_csv)"
  using filtered_subsequence [of "''Non-working days''" "df sample_csv" "[2011, 2012]" "[Some ''spring'']"]
  by (simp add: sample_df sample_sel)

text \<open>
  Claim C2. Filtering with every year of the table selected, every season name of the
  table selected and the mode All returns the table itself: the same rows in the same
  order, hence the same row count.
\<close>

theorem filtered_full_selection:
  "filtered t (year_options t) (season_options t) ''All'' = t"
  by (simp add: filtered_conj year_options_def season_options_def set_unique)

theorem filtered_full_selection_witness:
  "year_options (df sample_csv) = [2011, 2012]
   \<and> season_options (df sample_csv) = [Some ''spring'']
   \<and> filtered (df sample_csv) [2011, 2012] [Some ''spring''] ''All'' = df sample_csv"
proof -
  have ys: "year_options (df sample_csv) = [2011, 2012]"
    by (simp add: year_options_def unique_def sample_df sample_sel)
  have ss: "season_options (df sample_csv) = [Some ''spring'']"
    by (simp add: season_options_def unique_def sample_df sample_sel)
  from filtered_full_selection [of "df sample_csv"] show ?thesis
    unfolding ys ss by simp
qed

text \<open>
  Claim C3. The filter is idempotent: filtering a filtered view again with the same
  three selections returns that view.
\<close>

theorem filtered_idempotent:
  "filtered (filtered t ys ss m) ys ss m = filtered t ys ss m"
  by (simp add: filtered_conj)

text \<open>
  Claim C10. The table the filter and the aggregations read has a column \<open>total\<close>
  that is not part of the loaded table; it equals \<open>count\<close> in every row, and so it
  does in every row of every filtered view.
\<close>

theorem total_equals_count:
  "\<forall>r \<in> set (filtered (df csv) ys ss m). total r = count r"
  by (auto simp: filtered_conj df_def add_total_sel)

theorem total_equals_count_witness:
  "filtered (df sample_csv) [2011] [Some ''spring''] ''All'' = [add_total (annotate csv1)]
   \<and> total (add_total (annotate csv1)) = count (add_total (annotate csv1))"
proof -
  have view: "filtered (df sample_csv) [2011] [Some ''spring''] ''All'' = [add_total (annotate csv1)]"
    by (simp add: filtered_conj sample_df sample_sel)
  from total_equals_count [of sample_csv "[2011]" "[Some ''spring'']" "''All''"]
  show ?thesis unfolding view by simp
qed

subsection \<open>The day period\<close>

text \<open>
  Claim C5. In every row of the loaded table the day period is the value of
  \<open>get_day_period\<close> at the row's hour, so it depends on the hour alone; it is always one
  of night, morning, afternoon, evening; and on the hours 0 to 23 the four values are
  taken exactly on [0,6), [6,12), [12,18) and [18,24).
\<close>

theorem day_period_buckets:
  "(\<forall>r \<in> set (load_data csv). day_period r = get_day_period (hour r))
   \<and> get_day_period h \<in> {''night'', ''morning'', ''afternoon'', ''evening''}
   \<and> (0 \<le> h \<and> h < 24 \<longrightarrow>
        (get_day_period h = ''night'') = (0 \<le> h \<and> h < 6)
      \<and> (get_day_period h = ''morning'') = (6 \<le> h \<and> h < 12)
      \<and> (get_day_period h = ''afternoon'') = (12 \<le> h \<and> h < 18)
      \<and> (get_day_period h = ''evening'') = (18 \<le> h \<and> h < 24))"
  by (auto simp: load_data_def annotate_sel get_day_period_def)

theorem day_period_buckets_witness:
  "day_period (annotate csv1) = get_day_period 3
   \<and> day_period (annotate csv2) = get_day_period 14
   \<and> get_day_period 14 = ''afternoon''"
  using day_period_buckets [of sample_csv 14]
  by (simp add: load_data_def sample_csv_def annotate_sel csv1_def csv2_def ts1_def ts2_def)

subsection \<open>Empty selections and the key figures\<close>

lemma filtered_empty_selection:
  "ys = [] \<or> ss = [] \<Longrightarrow> filtered t ys ss m = []"
  by (auto simp: filtered_conj)

lemma kpis_empty:
  "kpis [] = \<lparr>total_rentals = 0, mean_hourly_rentals = NaN,
              registered_rentals = 0, casual_rentals = 0\<rparr>"
  by (simp add: kpis_def series_sum_def series_mean_def)

text \<open>
  Claim C4. When no year or no season is selected the filtered view is empty; and on an
  empty view the key figures are values, not errors: the three sums are 0 and the mean
  of count is NaN, not 0.
\<close>

theorem empty_selection_kpis:
  "(ys = [] \<or> ss = [] \<longrightarrow> filtered t ys ss m = [])
   \<and> kpis [] = \<lparr>total_rentals = 0, mean_hourly_rentals = NaN,
                 registered_rentals = 0, casual_rentals = 0\<rparr>
   \<and> mean_hourly_rentals (kpis []) \<noteq> Finite 0"
  by (simp add: filtered_empty_selection kpis_empty)

theorem empty_selection_kpis_witness:
  "filtered (df sample_csv) [] [Some ''spring''] ''All'' = []
   \<and> kpis [] = \<lparr>total_rentals = 0, mean_hourly_rentals = NaN,
                 registered_rentals = 0, casual_rentals = 0\<rparr>"
  using empty_selection_kpis [of "[]" "[Some ''spring'']" "df sample_csv" "''All''"]
  by blast

subsection \<open>The monthly trend\<close>

lemma groupby_keys:
  "map fst (groupby_mean key col view) = sort (unique (map key view))"
  by (simp add: groupby_mean_def comp_def)

lemma distinct_unique: "distinct (unique xs)"
  by (simp add: unique_def)

lemma sample_monthly:
  "monthly (df sample_csv) ''count'' = Inr [((2011, 2), Finite 16), ((2012, 1), Finite 40)]"
  by (simp add: monthly_def metric_column_def groupby_mean_def unique_def sample_df sample_sel
      series_mean_def)

text \<open>
  Claim C6, as the specification states it, asks for the monthly rows ordered by month and
  then by year. On the two sample rows, of February 2011 and January 2012, the
  aggregation returns the 2011 row first: the rows are not in that order.
\<close>

theorem monthly_order_counterexample:
  "monthly (filtered (df sample_csv) [2011, 2012] [Some ''spring''] ''All'') ''count''
     = Inr [((2011, 2), Finite 16), ((2012, 1), Finite 40)]
   \<and> \<not> month_year_ordered [((2011, 2), Finite 16), ((2012, 1), Finite 40)]"
  by (simp add: filtered_conj sample_df sample_sel sample_monthly [unfolded sample_df]
      month_year_ordered_def)

text \<open>
  Claim C6, amended. For every view and every metric among count, casual and registered,
  the monthly aggregation returns exactly one row per (year, month) pair present in the
  view, carrying the mean of the metric over the rows of that pair, and the rows are
  ordered by year and then by month.
\<close>

theorem monthly_rows:
  assumes "mc \<in> {''count'', ''casual'', ''registered''}"
  shows "\<exists>rows col. monthly view mc = Inr rows \<and> metric_column mc = Some col
           \<and> set (map fst rows) = (\<lambda>r. (year r, month r)) ` set view
           \<and> distinct (map fst rows)
           \<and> sorted_wrt (\<lambda>(y1, m1) (y2, m2). y1 < y2 \<or> (y1 = y2 \<and> m1 < m2)) (map fst rows)
           \<and> (\<forall>((y, m), v) \<in> set rows.
                 filter (\<lambda>r. year r = y \<and> month r = m) view \<noteq> [] \<and>
                 v = series_mean (map col (filter (\<lambda>r. year r = y \<and> month r = m) view)))"
proof -
  from assms obtain col :: "'a row_scheme \<Rightarrow> int" where col: "metric_column mc = Some col"
    by (auto simp: metric_column_def)
  define rows where "rows = groupby_mean (\<lambda>r. (year r, month r)) col view"
  have m: "monthly view mc = Inr rows"
    by (simp add: monthly_def col rows_def)
  have keys: "map fst rows = sort (unique (map (\<lambda>r. (year r, month r)) view))"
    by (simp add: rows_def groupby_keys)
  have s: "set (map fst rows) = (\<lambda>r. (year r, month r)) ` set view"
    unfolding keys by (simp add: set_unique)
  have d: "distinct (map fst rows)"
    unfolding keys by (simp add: distinct_unique)
  have "sorted (map fst rows)"
    unfolding keys by simp
  with d have "sorted_wrt (<) (map fst rows)"
    by (simp add: strict_sorted_iff)
  then have o: "sorted_wrt (\<lambda>(y1, m1) (y2, m2). y1 < y2 \<or> (y1 = y2 \<and> m1 < m2)) (map fst rows)"
    by (rule sorted_wrt_mono_rel [rotated]) (auto simp: less_prod_def)
  have v: "\<forall>((y, m), v) \<in> set rows.
                 filter (\<lambda>r. year r = y \<and> month r = m) view \<noteq> [] \<and>
                 v = series_mean (map col (filter (\<lambda>r. year r = y \<and> month r = m) view))"
    by (auto simp: rows_def groupby_mean_def set_unique filter_empty_conv)
  from m col s d o v show ?thesis by blast
qed

theorem monthly_rows_witness:
  "monthly (df sample_csv) ''count'' = Inr [((2011, 2), Finite 16), ((2012, 1), Finite 40)]
   \<and> sorted_wrt (\<lambda>(y1, m1) (y2, m2). y1 < y2 \<or> (y1 = y2 \<and> m1 < m2))
        [(2011::int, 2::int), (2012, 1)]"
  using monthly_rows [of "''count''" "df sample_csv"]
  by (simp add: sample_monthly)

subsection \<open>The scatter sample\<close>

text \<open>
  Claim C7. Whenever the generator seeded with 0 yields a permutation of the row
  positions of the view, the scatter sample is returned without error, has exactly
  min(5000, number of rows of the view) rows, all of them rows of the view, and does not
  depend on the state of the process-wide generator: every run over the same view gives
  the same rows in the same order.
\<close>

theorem scatter_sample_size:
  assumes "distinct (permutation (seeded 0) (length view))"
      and "set (permutation (seeded 0) (length view)) = {..<length view}"
  shows "\<exists>s. scatter_sample seeded permutation g view = Inr s
           \<and> length s = min 5000 (length view)
           \<and> set s \<subseteq> set view
           \<and> (\<forall>g'. scatter_sample seeded permutation g' view = Inr s)"
proof -
  define p where "p = permutation (seeded 0) (length view)"
  define s where "s = map (\<lambda>i. view ! i) (take (min (length view) 5000) p)"
  have same: "scatter_sample seeded permutation g' view = Inr s" for g'
    by (simp add: scatter_sample_def sample_def s_def p_def)
  from assms have "length p = length view"
    unfolding p_def by (metis card_lessThan distinct_card)
  then have len: "length s = min 5000 (length view)"
    by (simp add: s_def min.commute)
  have "set (take (min (length view) 5000) p) \<subseteq> {..<length view}"
    using assms(2) set_take_subset [of "min (length view) 5000" p] by (simp add: p_def)
  then have sub: "set s \<subseteq> set view"
    by (auto simp: s_def)
  from same len sub show ?thesis by blast
qed

theorem scatter_sample_size_witness:
  "scatter_sample (\<lambda>s. s) (\<lambda>g n. rev [0..<n]) (7::nat) (df sample_csv)
     = Inr [add_total (annotate csv2), add_total (annotate csv1)]
   \<and> scatter_sample (\<lambda>s. s) (\<lambda>g n. rev [0..<n]) (9::nat) (df sample_csv)
     = Inr [add_total (annotate csv2), add_total (annotate csv1)]"
  using scatter_sample_size [of "\<lambda>g n. rev [0..<n]" "\<lambda>s. s" "df sample_csv" 7]
  by (simp add: scatter_sample_def sample_def sample_df)

subsection \<open>The correlation matrix\<close>













subsection \<open>Failure of the load\<close>


text \<open>
  A file with every column the script names except workingday loads; with the default
  selections the run ends at the hourly chart, after the key figures and the monthly
  chart are on the page.
\<close>

lemma run_without_workingday:
  "run (Table [''datetime'', ''season'', ''temp'', ''atemp'', ''humidity'', ''windspeed'',
               ''casual'', ''registered'', ''count''] True) ''All'' ''count'' ''temp'' =
     ([Title, Intro, SidebarHeader, YearSelect, SeasonSelect, WorkingdayRadio, SidebarRule,
       SidebarHint, Subheader, Metric ''Total rentals'', Metric ''Mean hourly rentals'',
       Metric ''Registered rentals'', Metric ''Casual rentals'', Heading ''Rentals by month'',
       MetricSelect, Chart 1, Heading ''Hourly pattern by working day''],
      Some (KeyError ''workingday''))"
  by (simp add: run_def load_data_file_def body_def numeric_cols_def)




end
